theory Spec2Isabelle
  imports Main "HOL-Library.Word" "HOL-Library.AList"
begin

section \<open>Data model of populate\_database.py\<close>

text \<open>
  A chunk is a langchain \<open>Document\<close>: its text and a metadata dictionary. The program
  reads the keys \<open>"source"\<close> and \<open>"page"\<close> with \<open>metadata.get\<close> (an absent key reads as
  Python's \<open>None\<close>) and writes the key \<open>"id"\<close>. The three keys are the fields of the
  record, \<open>None\<close> standing for an absent key. A source is a path, a page an integer.
  The chunks of a batch are separate objects, as the text splitter returns them, so the
  in-place assignment \<open>chunk.metadata["id"] = chunk_id\<close> is an update of one list element.
\<close>

type_synonym bytes = "8 word list"

record chunk =
  page_content :: string
  metadata_source :: "string option"
  metadata_page :: "int option"
  metadata_id :: "string option"

text \<open>
  The exceptions that can leave the functions modelled here: \<open>open(None, 'rb')\<close> raises
  \<open>TypeError\<close>; \<open>open\<close> on a path raises an \<open>OSError\<close> that names the path; reading a
  dictionary key that is absent raises \<open>KeyError\<close>; the store raises
  \<open>DuplicateIDError\<close> when one call gives it an identifier twice.
\<close>

datatype error = TypeError | OSError string | KeyError string | DuplicateIDError

text \<open>
  The environment of a run: what \<open>open(filepath, 'rb')\<close> does for each path (the file's
  bytes, \<open>FileNotFoundError\<close>, or another \<open>OSError\<close> such as a permission error), and
  the digest of hashlib (\<open>sha1.hexdigest()\<close> as a function of all the bytes fed to
  \<open>sha1.update\<close>).
\<close>

datatype open_result = Opened bytes | FileNotFound | OpenFailed

record env =
  open_file :: "string \<Rightarrow> open_result"
  hexdigest :: "bytes \<Rightarrow> string"

section \<open>Python's \<open>str\<close> on the values formatted into an identifier\<close>

definition digit_char :: "nat \<Rightarrow> char" where
  "digit_char d = ''0123456789'' ! d"

fun str_nat :: "nat \<Rightarrow> string" where
  "str_nat n = (if n < 10 then [digit_char n] else str_nat (n div 10) @ [digit_char (n mod 10)])"

declare str_nat.simps [simp del]

definition str_int :: "int \<Rightarrow> string" where
  "str_int i = (if i < 0 then CHR ''-'' # str_nat (nat (- i)) else str_nat (nat i))"

definition str_opt :: "('a \<Rightarrow> string) \<Rightarrow> 'a option \<Rightarrow> string" where
  "str_opt f v = (case v of None \<Rightarrow> ''None'' | Some x \<Rightarrow> f x)"

section \<open>calculate\_sha1\<close>

text \<open>
  The \<open>while True\<close> loop of \<open>calculate_sha1\<close>: \<open>f.read(65536)\<close> takes the next block of
  the file, an empty block ends the loop, any other block is fed to \<open>sha1.update\<close>. The
  accumulator is the sequence of bytes fed so far. The loop ends, since every block it
  feeds shortens what is left of the file.
\<close>

function sha1_update_loop :: "bytes \<Rightarrow> bytes \<Rightarrow> bytes" where
  "sha1_update_loop acc rest =
     (if take 65536 rest = [] then acc
      else sha1_update_loop (acc @ take 65536 rest) (drop 65536 rest))"
  by pat_completeness auto
termination
  by (relation "measure (\<lambda>(acc, rest). length rest)") auto

declare sha1_update_loop.simps [simp del]

definition calculate_sha1 :: "env \<Rightarrow> string option \<Rightarrow> error + string option" where
  "calculate_sha1 e filepath =
     (case filepath of
        None \<Rightarrow> Inl TypeError
      | Some p \<Rightarrow>
          (case open_file e p of
             Opened content \<Rightarrow> Inr (Some (hexdigest e (sha1_update_loop [] content)))
           | FileNotFound \<Rightarrow> Inr None
           | OpenFailed \<Rightarrow> Inl (OSError p)))"

section \<open>calculate\_chunk\_ids\<close>

text \<open>
  The first four statements of the loop body: \<open>source\<close>, \<open>page\<close>, \<open>sha1_hash\<close> and the
  f-string \<open>f"{source}:{page}:{sha1_hash}"\<close>.
\<close>

definition current_page_id :: "env \<Rightarrow> chunk \<Rightarrow> error + string" where
  "current_page_id e c =
     (case calculate_sha1 e (metadata_source c) of
        Inl err \<Rightarrow> Inl err
      | Inr sha1_hash \<Rightarrow>
          Inr (str_opt (\<lambda>s. s) (metadata_source c) @ '':'' @
               str_opt str_int (metadata_page c) @ '':'' @
               str_opt (\<lambda>s. s) sha1_hash))"

text \<open>
  The \<open>for chunk in chunks\<close> loop, with its two variables \<open>last_page_id\<close> and
  \<open>current_chunk_index\<close> as arguments. An exception of \<open>calculate_sha1\<close> ends the loop
  and the function: the caller receives the exception and no list, so the result is the
  error alone, without the identifiers already written to the chunks before.
\<close>

fun calculate_chunk_ids_loop ::
  "env \<Rightarrow> string option \<Rightarrow> nat \<Rightarrow> chunk list \<Rightarrow> error + chunk list" where
  "calculate_chunk_ids_loop e last_page_id current_chunk_index [] = Inr []"
| "calculate_chunk_ids_loop e last_page_id current_chunk_index (c # cs) =
     (case current_page_id e c of
        Inl err \<Rightarrow> Inl err
      | Inr page_id \<Rightarrow>
          (let idx = (if Some page_id = last_page_id then current_chunk_index + 1 else 0);
               chunk_id = page_id @ '':'' @ str_nat idx
           in case calculate_chunk_ids_loop e (Some page_id) idx cs of
                Inl err \<Rightarrow> Inl err
              | Inr cs' \<Rightarrow> Inr (c\<lparr>metadata_id := Some chunk_id\<rparr> # cs')))"

definition calculate_chunk_ids :: "env \<Rightarrow> chunk list \<Rightarrow> error + chunk list" where
  "calculate_chunk_ids e chunks = calculate_chunk_ids_loop e None 0 chunks"

section \<open>The store and add\_to\_chroma\<close>

text \<open>
  The Chroma store as the program uses it: \<open>get\<close> lists the identifiers, \<open>delete\<close>
  removes the items of the given identifiers, \<open>add_documents\<close> stores each document
  under its identifier (in place of an item already stored under it), \<open>persist\<close> makes
  the state durable. The store rejects an \<open>add_documents\<close> whose identifiers are not
  pairwise different: the call raises \<open>DuplicateIDError\<close> and stores nothing. The state
  keeps the items and the sequence of calls made, a rejected call included. The
  program passes \<open>list(obsolete_ids)\<close> to \<open>delete\<close>, a list in the arbitrary order of a
  Python set: the call records the set. What the program prints is not part of the model.
\<close>

datatype call = Get | Delete "string set" | Persist | AddDocuments "chunk list" "string list"

record db =
  items :: "(string \<times> chunk) list"
  calls :: "call list"

definition db_get :: "db \<Rightarrow> string list \<times> db" where
  "db_get d = (map fst (items d), d\<lparr>calls := calls d @ [Get]\<rparr>)"

definition db_delete :: "string set \<Rightarrow> db \<Rightarrow> db" where
  "db_delete ids d =
     d\<lparr>items := filter (\<lambda>(k, v). k \<notin> ids) (items d), calls := calls d @ [Delete ids]\<rparr>"

definition db_add_documents :: "chunk list \<Rightarrow> string list \<Rightarrow> db \<Rightarrow> (error \<times> db) + db" where
  "db_add_documents docs ids d =
     (let d1 = d\<lparr>calls := calls d @ [AddDocuments docs ids]\<rparr>
      in if distinct ids
         then Inr (d1\<lparr>items := fold (\<lambda>(k, v). AList.update k v) (zip ids docs) (items d)\<rparr>)
         else Inl (DuplicateIDError, d1))"

definition db_persist :: "db \<Rightarrow> db" where
  "db_persist d = d\<lparr>calls := calls d @ [Persist]\<rparr>"

text \<open>\<open>chunk.metadata["id"]\<close>: a read of the key, which raises when the key is absent.\<close>

definition get_id :: "chunk \<Rightarrow> error + string" where
  "get_id c = (case metadata_id c of None \<Rightarrow> Inl (KeyError ''id'') | Some i \<Rightarrow> Inr i)"

text \<open>The comprehensions \<open>chunk.metadata["id"] for chunk in ...\<close>.\<close>

fun chunk_ids :: "chunk list \<Rightarrow> error + string list" where
  "chunk_ids [] = Inr []"
| "chunk_ids (c # cs) =
     (case get_id c of
        Inl err \<Rightarrow> Inl err
      | Inr i \<Rightarrow> (case chunk_ids cs of Inl err \<Rightarrow> Inl err | Inr is \<Rightarrow> Inr (i # is)))"

text \<open>The loop that collects \<open>new_chunks\<close>.\<close>

fun new_chunks_loop :: "string set \<Rightarrow> chunk list \<Rightarrow> error + chunk list" where
  "new_chunks_loop existing_ids [] = Inr []"
| "new_chunks_loop existing_ids (c # cs) =
     (case get_id c of
        Inl err \<Rightarrow> Inl err
      | Inr i \<Rightarrow>
          (case new_chunks_loop existing_ids cs of
             Inl err \<Rightarrow> Inl err
           | Inr new_chunks \<Rightarrow> Inr (if i \<notin> existing_ids then c # new_chunks else new_chunks)))"

text \<open>
  \<open>add_to_chroma\<close>, from the store \<open>d\<close> that \<open>Chroma(...)\<close> opens. An exception ends
  the function where it is raised: the result is then the exception together with the
  store as the calls made before have left it.
\<close>

definition add_to_chroma :: "env \<Rightarrow> db \<Rightarrow> chunk list \<Rightarrow> (error \<times> db) + db" where
  "add_to_chroma e d chunks =
     (case calculate_chunk_ids e chunks of
        Inl err \<Rightarrow> Inl (err, d)
      | Inr chunks_with_ids \<Rightarrow>
          (let (existing_items, d1) = db_get d;
               existing_ids = set existing_items
           in case new_chunks_loop existing_ids chunks_with_ids of
                Inl err \<Rightarrow> Inl (err, d1)
              | Inr new_chunks \<Rightarrow>
                  (case chunk_ids chunks_with_ids of
                     Inl err \<Rightarrow> Inl (err, d1)
                   | Inr ids \<Rightarrow>
                       (let current_ids = set ids;
                            obsolete_ids = existing_ids - current_ids;
                            d2 = (if obsolete_ids \<noteq> {}
                                  then db_persist (db_delete obsolete_ids d1) else d1)
                        in if length new_chunks \<noteq> 0
                           then (case chunk_ids new_chunks of
                                   Inl err \<Rightarrow> Inl (err, d2)
                                 | Inr new_chunk_ids \<Rightarrow>
                                     (case db_add_documents new_chunks new_chunk_ids d2 of
                                        Inl failed \<Rightarrow> Inl failed
                                      | Inr d3 \<Rightarrow> Inr (db_persist d3)))
                           else Inr d2))))"

section \<open>Notions used to state the properties\<close>

text \<open>
  A sequence is grouped when equal elements are contiguous: once a run of \<open>x\<close> has ended,
  \<open>x\<close> does not occur again.
\<close>

fun grouped :: "'a list \<Rightarrow> bool" where
  "grouped [] = True"
| "grouped (x # xs) = (x \<notin> set (dropWhile (\<lambda>y. y = x) xs) \<and> grouped xs)"

text \<open>
  The running index as the specification words it: the first chunk has index 0; a chunk
  whose page key equals the page key of the chunk before it has that chunk's index plus
  one; any other chunk has index 0.
\<close>

fun spec_running_index :: "string list \<Rightarrow> nat \<Rightarrow> nat" where
  "spec_running_index ks 0 = 0"
| "spec_running_index ks (Suc i) =
     (if ks ! Suc i = ks ! i then spec_running_index ks i + 1 else 0)"

text \<open>
  The values that \<open>current_chunk_index\<close> takes along a sequence of page ids, from a given
  state of the loop, and the pairs of page id and index.
\<close>

fun chunk_indices :: "string option \<Rightarrow> nat \<Rightarrow> string list \<Rightarrow> nat list" where
  "chunk_indices prev idx [] = []"
| "chunk_indices prev idx (k # ks) =
     (let i = (if Some k = prev then idx + 1 else 0) in i # chunk_indices (Some k) i ks)"

definition keyed :: "string option \<Rightarrow> nat \<Rightarrow> string list \<Rightarrow> (string \<times> nat) list" where
  "keyed prev idx ks = zip ks (chunk_indices prev idx ks)"

definition set_id :: "chunk \<times> string \<times> nat \<Rightarrow> chunk" where
  "set_id = (\<lambda>(c, k, n). c\<lparr>metadata_id := Some (k @ '':'' @ str_nat n)\<rparr>)"

text \<open>
  What a sequence of store calls removes and adds, and the identifiers that the chunks
  of a list carry.
\<close>

fun deleted_ids :: "call list \<Rightarrow> string set" where
  "deleted_ids [] = {}"
| "deleted_ids (Delete ids # cs) = ids \<union> deleted_ids cs"
| "deleted_ids (_ # cs) = deleted_ids cs"

fun added_chunks :: "call list \<Rightarrow> chunk list" where
  "added_chunks [] = []"
| "added_chunks (AddDocuments docs ids # cs) = docs @ added_chunks cs"
| "added_chunks (_ # cs) = added_chunks cs"

fun added_ids :: "call list \<Rightarrow> string list" where
  "added_ids [] = []"
| "added_ids (AddDocuments docs ids # cs) = ids @ added_ids cs"
| "added_ids (_ # cs) = added_ids cs"

definition present_ids :: "chunk list \<Rightarrow> string list" where
  "present_ids cs = List.map_filter metadata_id cs"

section \<open>An example environment\<close>

text \<open>
  Two empty files, one file that exists and cannot be opened, and no other file. The
  digest of the empty byte sequence is the only digest the example needs.
\<close>

definition example_env :: env where
  "example_env =
     \<lparr>open_file = (\<lambda>p. if p = ''report.md'' \<or> p = ''data/monopoly.pdf'' then Opened []
                       else if p = ''data/locked.pdf'' then OpenFailed else FileNotFound),
      hexdigest = (\<lambda>data. ''da39a3ee5e6b4b0d3255bfef95601890afd80709'')\<rparr>"

definition example_chunk :: "string \<Rightarrow> int option \<Rightarrow> chunk" where
  "example_chunk src pg =
     \<lparr>page_content = ''text'', metadata_source = Some src, metadata_page = pg,
      metadata_id = None\<rparr>"

text \<open>Two batches over the pages 1 and 2 of one file: one interleaved, one grouped.\<close>

definition interleaved_chunks :: "chunk list" where
  "interleaved_chunks =
     [example_chunk ''data/monopoly.pdf'' (Some 1),
      example_chunk ''data/monopoly.pdf'' (Some 2),
      example_chunk ''data/monopoly.pdf'' (Some 1)]"

definition contiguous_chunks :: "chunk list" where
  "contiguous_chunks =
     [example_chunk ''data/monopoly.pdf'' (Some 1),
      example_chunk ''data/monopoly.pdf'' (Some 1),
      example_chunk ''data/monopoly.pdf'' (Some 2)]"

definition contiguous_chunks_with_ids :: "chunk list" where
  "contiguous_chunks_with_ids =
     [example_chunk ''data/monopoly.pdf'' (Some 1)
        \<lparr>metadata_id := Some ''data/monopoly.pdf:1:da39a3ee5e6b4b0d3255bfef95601890afd80709:0''\<rparr>,
      example_chunk ''data/monopoly.pdf'' (Some 1)
        \<lparr>metadata_id := Some ''data/monopoly.pdf:1:da39a3ee5e6b4b0d3255bfef95601890afd80709:1''\<rparr>,
      example_chunk ''data/monopoly.pdf'' (Some 2)
        \<lparr>metadata_id := Some ''data/monopoly.pdf:2:da39a3ee5e6b4b0d3255bfef95601890afd80709:0''\<rparr>]"

text \<open>Two chunks of a file that has no pages.\<close>

definition report_chunks :: "chunk list" where
  "report_chunks = [example_chunk ''report.md'' None, example_chunk ''report.md'' None]"

text \<open>A batch with a file that does not exist, and one with a file that cannot be opened.\<close>

definition missing_chunks :: "chunk list" where
  "missing_chunks =
     [example_chunk ''report.md'' None, example_chunk ''data/missing.pdf'' (Some 0)]"

definition locked_chunks :: "chunk list" where
  "locked_chunks =
     [example_chunk ''data/missing.pdf'' (Some 0), example_chunk ''data/locked.pdf'' (Some 0),
      example_chunk ''report.md'' None]"

text \<open>
  The identifiers of the two chunks of \<open>report.md\<close>, a store that holds the first of them
  and an item of a file that is gone, and the store after a run on the two chunks.
\<close>

definition report_chunks_with_ids :: "chunk list" where
  "report_chunks_with_ids =
     [example_chunk ''report.md'' None
        \<lparr>metadata_id := Some ''report.md:None:da39a3ee5e6b4b0d3255bfef95601890afd80709:0''\<rparr>,
      example_chunk ''report.md'' None
        \<lparr>metadata_id := Some ''report.md:None:da39a3ee5e6b4b0d3255bfef95601890afd80709:1''\<rparr>]"

definition example_db :: db where
  "example_db =
     \<lparr>items =
        [(''data/old.pdf:0:None:0'',
          example_chunk ''data/old.pdf'' (Some 0)\<lparr>metadata_id := Some ''data/old.pdf:0:None:0''\<rparr>),
         (''report.md:None:da39a3ee5e6b4b0d3255bfef95601890afd80709:0'',
          example_chunk ''report.md'' None
            \<lparr>metadata_id := Some ''report.md:None:da39a3ee5e6b4b0d3255bfef95601890afd80709:0''\<rparr>)],
      calls = []\<rparr>"

definition example_db_synced :: db where
  "example_db_synced =
     \<lparr>items =
        [(''report.md:None:da39a3ee5e6b4b0d3255bfef95601890afd80709:0'',
          example_chunk ''report.md'' None
            \<lparr>metadata_id := Some ''report.md:None:da39a3ee5e6b4b0d3255bfef95601890afd80709:0''\<rparr>),
         (''report.md:None:da39a3ee5e6b4b0d3255bfef95601890afd80709:1'',
          example_chunk ''report.md'' None
            \<lparr>metadata_id := Some ''report.md:None:da39a3ee5e6b4b0d3255bfef95601890afd80709:1''\<rparr>)],
      calls =
        [Get, Delete {''data/old.pdf:0:None:0''}, Persist,
         AddDocuments
           [example_chunk ''report.md'' None
              \<lparr>metadata_id := Some ''report.md:None:da39a3ee5e6b4b0d3255bfef95601890afd80709:1''\<rparr>]
           [''report.md:None:da39a3ee5e6b4b0d3255bfef95601890afd80709:1''],
         Persist]\<rparr>"

text \<open>
  A batch over the pages 1, 2, 3, 2 of one file with its identifiers, the chunks of it
  that are new for a store holding the identifier of page 1 and an item of a file that
  is gone, and that store.
\<close>

definition repeated_chunks :: "chunk list" where
  "repeated_chunks =
     [example_chunk ''data/monopoly.pdf'' (Some 1),
      example_chunk ''data/monopoly.pdf'' (Some 2),
      example_chunk ''data/monopoly.pdf'' (Some 3),
      example_chunk ''data/monopoly.pdf'' (Some 2)]"

definition repeated_new_chunks :: "chunk list" where
  "repeated_new_chunks =
     [example_chunk ''data/monopoly.pdf'' (Some 2)
        \<lparr>metadata_id := Some ''data/monopoly.pdf:2:da39a3ee5e6b4b0d3255bfef95601890afd80709:0''\<rparr>,
      example_chunk ''data/monopoly.pdf'' (Some 3)
        \<lparr>metadata_id := Some ''data/monopoly.pdf:3:da39a3ee5e6b4b0d3255bfef95601890afd80709:0''\<rparr>,
      example_chunk ''data/monopoly.pdf'' (Some 2)
        \<lparr>metadata_id := Some ''data/monopoly.pdf:2:da39a3ee5e6b4b0d3255bfef95601890afd80709:0''\<rparr>]"

definition repeated_chunks_with_ids :: "chunk list" where
  "repeated_chunks_with_ids =
     example_chunk ''data/monopoly.pdf'' (Some 1)
       \<lparr>metadata_id := Some ''data/monopoly.pdf:1:da39a3ee5e6b4b0d3255bfef95601890afd80709:0''\<rparr> #
     repeated_new_chunks"

definition repeated_db :: db where
  "repeated_db =
     \<lparr>items =
        [(''data/old.pdf:0:None:0'',
          example_chunk ''data/old.pdf'' (Some 0)\<lparr>metadata_id := Some ''data/old.pdf:0:None:0''\<rparr>),
         (''data/monopoly.pdf:1:da39a3ee5e6b4b0d3255bfef95601890afd80709:0'',
          example_chunk ''data/monopoly.pdf'' (Some 1)
            \<lparr>metadata_id := Some ''data/monopoly.pdf:1:da39a3ee5e6b4b0d3255bfef95601890afd80709:0''\<rparr>)],
      calls = []\<rparr>"

section \<open>Lemmas on the rendering of numbers\<close>

lemma digit_char_inj: "a < 10 \<Longrightarrow> b < 10 \<Longrightarrow> digit_char a = digit_char b \<Longrightarrow> a = b"
proof -
  assume a: "a < 10" and b: "b < 10" and e: "digit_char a = digit_char b"
  have d: "distinct ''0123456789''" by simp
  have l: "length ''0123456789'' = 10" by simp
  from a b e d l show ?thesis
    unfolding digit_char_def by (simp only: nth_eq_iff_index_eq)
qed

lemma digit_char_not_colon: "d < 10 \<Longrightarrow> digit_char d \<noteq> CHR '':''"
proof -
  assume "d < 10"
  moreover have l: "length ''0123456789'' = 10" by simp
  ultimately have "''0123456789'' ! d \<in> set ''0123456789''"
    by (simp only: nth_mem)
  then show ?thesis unfolding digit_char_def by auto
qed

lemma str_nat_not_Nil: "str_nat n \<noteq> []"
  by (subst str_nat.simps) simp


lemma colon_notin_str_nat: "CHR '':'' \<notin> set (str_nat n)"
proof (induction n rule: str_nat.induct)
  case (1 n)
  show ?case
  proof (cases "n < 10")
    case True
    then show ?thesis
      using digit_char_not_colon [of n] by (subst str_nat.simps) auto
  next
    case False
    with 1 have "CHR '':'' \<notin> set (str_nat (n div 10))" by simp
    moreover have "digit_char (n mod 10) \<noteq> CHR '':''" by (simp add: digit_char_not_colon)
    ultimately show ?thesis using False by (subst str_nat.simps) auto
  qed
qed

lemma str_nat_inj: "str_nat n = str_nat m \<Longrightarrow> n = m"
proof (induction n arbitrary: m rule: str_nat.induct)
  case (1 n)
  show ?case
  proof (cases "n < 10")
    case n: True
    show ?thesis
    proof (cases "m < 10")
      case True
      with n 1(2) show ?thesis
        by (simp add: str_nat.simps [of n] str_nat.simps [of m] digit_char_inj)
    next
      case False
      with n 1(2) show ?thesis
        using str_nat_not_Nil [of "m div 10"]
        by (simp add: str_nat.simps [of n] str_nat.simps [of m])
    qed
  next
    case n: False
    show ?thesis
    proof (cases "m < 10")
      case True
      with n 1(2) show ?thesis
        using str_nat_not_Nil [of "n div 10"]
        by (simp add: str_nat.simps [of n] str_nat.simps [of m])
    next
      case False
      with n 1(2) have e: "str_nat (n div 10) = str_nat (m div 10)"
        and d: "digit_char (n mod 10) = digit_char (m mod 10)"
        by (simp_all add: str_nat.simps [of n] str_nat.simps [of m])
      from 1(1) [OF n e] have q: "n div 10 = m div 10" .
      have "n mod 10 < 10" "m mod 10 < 10" by simp_all
      then have r: "n mod 10 = m mod 10" using d by (rule digit_char_inj)
      have "n = 10 * (n div 10) + n mod 10" by simp
      also have "\<dots> = 10 * (m div 10) + m mod 10" by (simp only: q r)
      also have "\<dots> = m" by simp
      finally show ?thesis .
    qed
  qed
qed

lemma split_at_last_colon:
  assumes "c \<notin> set s" "c \<notin> set t" "k @ c # s = l @ c # t"
  shows "k = l \<and> s = t"
  using assms
proof (induction k arbitrary: l)
  case Nil
  then show ?case by (cases l) auto
next
  case (Cons a k)
  then show ?case by (cases l) auto
qed

lemma chunk_id_inj:
  assumes "k @ CHR '':'' # str_nat a = l @ CHR '':'' # str_nat b"
  shows "k = l \<and> a = b"
proof -
  from colon_notin_str_nat [of a] colon_notin_str_nat [of b] assms
  have "k = l \<and> str_nat a = str_nat b" by (rule split_at_last_colon)
  then show ?thesis by (simp add: str_nat_inj)
qed

lemma str_nat_0 [simp]: "str_nat 0 = ''0''"
  by (subst str_nat.simps) (simp add: digit_char_def)

lemma str_nat_1 [simp]: "str_nat 1 = ''1''" "str_nat (Suc 0) = ''1''"
  by (subst str_nat.simps, simp add: digit_char_def)+

lemma str_nat_2 [simp]: "str_nat 2 = ''2''"
  by (subst str_nat.simps) (simp add: digit_char_def)

lemma str_nat_3 [simp]: "str_nat 3 = ''3''"
  by (subst str_nat.simps) (simp add: digit_char_def)

lemma str_int_small [simp]: "str_int 1 = ''1''" "str_int 2 = ''2''" "str_int 3 = ''3''"
  by (simp_all add: str_int_def)

lemma sha1_update_loop_eq: "sha1_update_loop acc rest = acc @ rest"
proof (induction acc rest rule: sha1_update_loop.induct)
  case (1 acc rest)
  show ?case
  proof (cases "take 65536 rest = []")
    case True
    then have "rest = []" by (cases rest) simp_all
    then show ?thesis by (subst sha1_update_loop.simps) simp
  next
    case False
    with 1 show ?thesis by (subst sha1_update_loop.simps) simp
  qed
qed

section \<open>Lemmas on the identifier loop\<close>

lemma length_chunk_indices [simp]: "length (chunk_indices prev idx ks) = length ks"
  by (induction ks arbitrary: prev idx) (simp_all add: Let_def)

lemma loop_result:
  "map (current_page_id e) chunks = map Inr ks \<Longrightarrow>
   calculate_chunk_ids_loop e prev idx chunks =
     Inr (map set_id (zip chunks (zip ks (chunk_indices prev idx ks))))"
proof (induction chunks arbitrary: ks prev idx)
  case Nil
  then show ?case by simp
next
  case (Cons c cs)
  then obtain k ks' where ks: "ks = k # ks'" by (cases ks) auto
  with Cons.prems have k: "current_page_id e c = Inr k"
    and r: "map (current_page_id e) cs = map Inr ks'" by simp_all
  show ?case
    by (simp add: ks k Cons.IH [OF r] Let_def set_id_def)
qed

lemma loop_Inr_keys:
  "calculate_chunk_ids_loop e prev idx chunks = Inr out \<Longrightarrow>
   \<exists>ks. map (current_page_id e) chunks = map Inr ks"
proof (induction chunks arbitrary: prev idx out)
  case Nil
  then show ?case by simp
next
  case (Cons c cs)
  from Cons.prems obtain k where k: "current_page_id e c = Inr k"
    by (cases "current_page_id e c") auto
  let ?i = "if Some k = prev then idx + 1 else 0"
  from Cons.prems k obtain out' where "calculate_chunk_ids_loop e (Some k) ?i cs = Inr out'"
    by (cases "calculate_chunk_ids_loop e (Some k) ?i cs") (auto simp: Let_def)
  from Cons.IH [OF this] obtain ks where "map (current_page_id e) cs = map Inr ks" ..
  with k have "map (current_page_id e) (c # cs) = map Inr (k # ks)" by simp
  then show ?case ..
qed

lemma chunk_indices_0:
  "ks \<noteq> [] \<Longrightarrow>
   chunk_indices prev idx ks ! 0 = (if Some (ks ! 0) = prev then idx + 1 else 0)"
  by (cases ks) (simp_all add: Let_def)

lemma chunk_indices_Suc:
  "Suc i < length ks \<Longrightarrow>
   chunk_indices prev idx ks ! Suc i =
     (if ks ! Suc i = ks ! i then chunk_indices prev idx ks ! i + 1 else 0)"
proof (induction ks arbitrary: prev idx i)
  case Nil
  then show ?case by simp
next
  case (Cons k ks)
  let ?j = "if Some k = prev then idx + 1 else 0"
  show ?case
  proof (cases i)
    case 0
    with Cons.prems have "ks \<noteq> []" by auto
    from chunk_indices_0 [OF this, of "Some k" ?j] 0 show ?thesis
      by (simp add: Let_def)
  next
    case (Suc n)
    with Cons.prems have "Suc n < length ks" by simp
    from Cons.IH [OF this, of "Some k" ?j] Suc show ?thesis
      by (simp add: Let_def)
  qed
qed

lemma chunk_indices_spec:
  "i < length ks \<Longrightarrow> chunk_indices None 0 ks ! i = spec_running_index ks i"
proof (induction i)
  case 0
  then have "ks \<noteq> []" by auto
  from chunk_indices_0 [OF this, of None 0] show ?case by simp
next
  case (Suc i)
  then have "chunk_indices None 0 ks ! i = spec_running_index ks i" by simp
  with chunk_indices_Suc [OF Suc.prems, of None 0] show ?case by simp
qed

lemma keyed_Nil [simp]: "keyed prev idx [] = []"
  by (simp add: keyed_def)

lemma keyed_Cons_same [simp]:
  "keyed (Some k) idx (k # ks) = (k, idx + 1) # keyed (Some k) (idx + 1) ks"
  by (simp add: keyed_def)

lemma keyed_Cons_other [simp]:
  "prev \<noteq> Some k \<Longrightarrow> keyed prev idx (k # ks) = (k, 0) # keyed (Some k) 0 ks"
  by (auto simp: keyed_def)

lemma grouped_keyed:
  "grouped (l # ks) \<Longrightarrow>
   distinct (keyed (Some l) idx ks) \<and> (\<forall>n. (l, n) \<in> set (keyed (Some l) idx ks) \<longrightarrow> idx < n)"
proof (induction ks arbitrary: l idx)
  case Nil
  then show ?case by simp
next
  case (Cons k ks)
  show ?case
  proof (cases "k = l")
    case True
    with Cons.prems have "grouped (l # ks)" by simp
    from Cons.IH [OF this, of "idx + 1"] True show ?thesis by auto
  next
    case False
    with Cons.prems have g: "grouped (k # ks)" and l: "l \<notin> set ks" by simp_all
    from l have "(l, n) \<notin> set (keyed (Some k) 0 ks)" for n
      by (auto simp: keyed_def dest: set_zip_leftD)
    with Cons.IH [OF g, of 0] False show ?thesis by auto
  qed
qed

lemma grouped_distinct_keyed: "grouped ks \<Longrightarrow> distinct (keyed None idx ks)"
proof (cases ks)
  case Nil
  then show ?thesis by simp
next
  case (Cons k ks')
  assume "grouped ks"
  with Cons have "grouped (k # ks')" by simp
  from grouped_keyed [OF this, of 0] Cons show ?thesis by auto
qed

lemma first_of_run_keyed:
  "l \<in> set ks \<Longrightarrow> prev \<noteq> Some l \<Longrightarrow> (l, 0) \<in> set (keyed prev idx ks)"
proof (induction ks arbitrary: prev idx)
  case Nil
  then show ?case by simp
next
  case (Cons k ks)
  show ?case
  proof (cases "k = l")
    case True
    with Cons.prems show ?thesis by simp
  next
    case False
    with Cons.prems have l: "l \<in> set ks" by simp
    from False have "Some k \<noteq> Some l" by simp
    from Cons.IH [OF l this] have *: "(l, 0) \<in> set (keyed (Some k) i ks)" for i .
    show ?thesis
    proof (cases "prev = Some k")
      case True
      with * [of "idx + 1"] show ?thesis by simp
    next
      case False
      with * [of 0] show ?thesis by simp
    qed
  qed
qed

lemma keyed_grouped:
  "distinct (keyed (Some l) idx ks) \<Longrightarrow> (l, 0) \<notin> set (keyed (Some l) idx ks) \<Longrightarrow>
   grouped (l # ks)"
proof (induction ks arbitrary: l idx)
  case Nil
  then show ?case by simp
next
  case (Cons k ks)
  show ?case
  proof (cases "k = l")
    case True
    with Cons.prems have "distinct (keyed (Some l) (idx + 1) ks)"
      and "(l, 0) \<notin> set (keyed (Some l) (idx + 1) ks)" by simp_all
    then have "grouped (l # ks)" by (rule Cons.IH)
    with True show ?thesis by simp
  next
    case False
    with Cons.prems have d: "distinct (keyed (Some k) 0 ks)"
      and k: "(k, 0) \<notin> set (keyed (Some k) 0 ks)"
      and l: "(l, 0) \<notin> set (keyed (Some k) 0 ks)" by simp_all
    from d k have g: "grouped (k # ks)" by (rule Cons.IH)
    from False have "Some k \<noteq> Some l" by simp
    with l first_of_run_keyed [of l ks "Some k" 0] have "l \<notin> set ks" by blast
    with g False show ?thesis by simp
  qed
qed

lemma distinct_keyed_grouped: "distinct (keyed None idx ks) \<Longrightarrow> grouped ks"
proof (cases ks)
  case Nil
  then show ?thesis by simp
next
  case (Cons k ks')
  assume "distinct (keyed None idx ks)"
  with Cons have "distinct (keyed (Some k) 0 ks')" "(k, 0) \<notin> set (keyed (Some k) 0 ks')"
    by simp_all
  then have "grouped (k # ks')" by (rule keyed_grouped)
  with Cons show ?thesis by simp
qed

lemma distinct_keyed_iff: "distinct (keyed None idx ks) \<longleftrightarrow> grouped ks"
  using grouped_distinct_keyed distinct_keyed_grouped by blast

lemma ids_of_result:
  "length chunks = length ks \<Longrightarrow>
   map metadata_id (map set_id (zip chunks (zip ks (chunk_indices prev idx ks)))) =
   map (\<lambda>(k, n). Some (k @ '':'' @ str_nat n)) (keyed prev idx ks)"
  by (auto simp: keyed_def set_id_def list_eq_iff_nth_eq)

lemma inj_on_chunk_id: "inj_on (\<lambda>(k, n). Some (k @ '':'' @ str_nat n)) A"
  by (auto simp: inj_on_def dest: chunk_id_inj)

lemma distinct_ids_iff:
  assumes "map (current_page_id e) chunks = map Inr ks"
  shows "\<exists>out. calculate_chunk_ids e chunks = Inr out \<and>
           (distinct (map metadata_id out) \<longleftrightarrow> grouped ks)"
proof -
  from assms have len: "length chunks = length ks" by (metis length_map)
  let ?out = "map set_id (zip chunks (zip ks (chunk_indices None 0 ks)))"
  have "calculate_chunk_ids e chunks = Inr ?out"
    unfolding calculate_chunk_ids_def using assms by (rule loop_result)
  moreover have "distinct (map metadata_id ?out) \<longleftrightarrow> grouped ks"
    by (simp only: ids_of_result [OF len] distinct_map inj_on_chunk_id distinct_keyed_iff simp_thms)
  ultimately show ?thesis by blast
qed

lemma current_page_id_Inr:
  "current_page_id e c = Inr k \<Longrightarrow>
   \<exists>p h. metadata_source c = Some p \<and> calculate_sha1 e (Some p) = Inr h \<and>
         k = p @ '':'' @ str_opt str_int (metadata_page c) @ '':'' @ str_opt (\<lambda>s. s) h"
  by (cases "metadata_source c")
    (auto simp: current_page_id_def calculate_sha1_def str_opt_def split: sum.splits)

lemma calculate_chunk_ids_nth:
  assumes "calculate_chunk_ids e chunks = Inr out"
    and "map (current_page_id e) chunks = map Inr ks"
  shows "length out = length chunks"
    and "i < length chunks \<Longrightarrow>
         out ! i = (chunks ! i)\<lparr>metadata_id :=
                      Some (ks ! i @ '':'' @ str_nat (spec_running_index ks i))\<rparr>"
proof -
  from assms(2) have len: "length chunks = length ks" by (metis length_map)
  from loop_result [OF assms(2), of None 0] assms(1)
  have out: "out = map set_id (zip chunks (zip ks (chunk_indices None 0 ks)))"
    by (simp add: calculate_chunk_ids_def)
  show "length out = length chunks" by (simp add: out len)
  assume "i < length chunks"
  with len show "out ! i = (chunks ! i)\<lparr>metadata_id :=
                      Some (ks ! i @ '':'' @ str_nat (spec_running_index ks i))\<rparr>"
    by (simp add: out set_id_def chunk_indices_spec)
qed

lemma current_page_id_Inl:
  "current_page_id e c = Inl err \<longleftrightarrow> calculate_sha1 e (metadata_source c) = Inl err"
  by (simp add: current_page_id_def split: sum.splits)

lemma current_page_id_Inr_iff:
  "(\<exists>k. current_page_id e c = Inr k) \<longleftrightarrow> (\<exists>h. calculate_sha1 e (metadata_source c) = Inr h)"
  by (simp add: current_page_id_def split: sum.splits)

lemma loop_Inl_first:
  "calculate_chunk_ids_loop e prev idx chunks = Inl err \<Longrightarrow>
   \<exists>pre c post. chunks = pre @ c # post \<and>
     (\<forall>x\<in>set pre. \<exists>h. calculate_sha1 e (metadata_source x) = Inr h) \<and>
     calculate_sha1 e (metadata_source c) = Inl err"
proof (induction chunks arbitrary: prev idx)
  case Nil
  then show ?case by simp
next
  case (Cons c cs)
  show ?case
  proof (cases "current_page_id e c")
    case (Inl err')
    with Cons.prems have "err' = err" by simp
    with Inl have "calculate_sha1 e (metadata_source c) = Inl err"
      by (simp add: current_page_id_Inl)
    then have "c # cs = [] @ c # cs \<and>
        (\<forall>x\<in>set []. \<exists>h. calculate_sha1 e (metadata_source x) = Inr h) \<and>
        calculate_sha1 e (metadata_source c) = Inl err" by simp
    then show ?thesis by blast
  next
    case (Inr k)
    let ?i = "if Some k = prev then idx + 1 else 0"
    from Cons.prems Inr have "calculate_chunk_ids_loop e (Some k) ?i cs = Inl err"
      by (cases "Some k = prev") (auto simp: Let_def split: sum.splits)
    from Cons.IH [OF this] obtain pre x post where cs: "cs = pre @ x # post"
      and pre: "\<forall>x\<in>set pre. \<exists>h. calculate_sha1 e (metadata_source x) = Inr h"
      and x: "calculate_sha1 e (metadata_source x) = Inl err" by blast
    from Inr have "\<exists>h. calculate_sha1 e (metadata_source c) = Inr h"
      using current_page_id_Inr_iff by blast
    with cs pre x have "c # cs = (c # pre) @ x # post \<and>
        (\<forall>x\<in>set (c # pre). \<exists>h. calculate_sha1 e (metadata_source x) = Inr h) \<and>
        calculate_sha1 e (metadata_source x) = Inl err" by simp
    then show ?thesis by blast
  qed
qed

lemma loop_first_Inl:
  "(\<forall>x\<in>set pre. \<exists>h. calculate_sha1 e (metadata_source x) = Inr h) \<Longrightarrow>
   calculate_sha1 e (metadata_source c) = Inl err \<Longrightarrow>
   calculate_chunk_ids_loop e prev idx (pre @ c # post) = Inl err"
proof (induction pre arbitrary: prev idx)
  case Nil
  then show ?case by (simp add: current_page_id_def)
next
  case (Cons x pre)
  from Cons.prems(1) obtain k where k: "current_page_id e x = Inr k"
    using current_page_id_Inr_iff [of e x] by auto
  from Cons.prems have "calculate_chunk_ids_loop e (Some k) i (pre @ c # post) = Inl err" for i
    by (intro Cons.IH) simp_all
  with k show ?case by (simp add: Let_def)
qed

lemma all_page_ids:
  "(\<forall>c\<in>set chunks. \<exists>k. current_page_id e c = Inr k) \<Longrightarrow>
   \<exists>ks. map (current_page_id e) chunks = map Inr ks"
proof (induction chunks)
  case Nil
  then show ?case by simp
next
  case (Cons c cs)
  then obtain k ks where "current_page_id e c = Inr k"
    and "map (current_page_id e) cs = map Inr ks" by auto
  then have "map (current_page_id e) (c # cs) = map Inr (k # ks)" by simp
  then show ?case ..
qed

lemma calculate_sha1_not_failed:
  "open_file e p \<noteq> OpenFailed \<Longrightarrow> \<exists>h. calculate_sha1 e (Some p) = Inr h"
  by (cases "open_file e p") (simp_all add: calculate_sha1_def)

lemma example_page_id:
  "current_page_id example_env (example_chunk ''data/monopoly.pdf'' (Some pg)) =
     Inr (''data/monopoly.pdf:'' @ str_int pg @ '':da39a3ee5e6b4b0d3255bfef95601890afd80709'')"
  by (simp add: current_page_id_def calculate_sha1_def example_env_def example_chunk_def
      str_opt_def)

section \<open>Lemmas on the store\<close>

lemma present_ids_simps [simp]:
  "present_ids [] = []"
  "present_ids (c # cs) = (case metadata_id c of None \<Rightarrow> present_ids cs | Some i \<Rightarrow> i # present_ids cs)"
  by (simp_all add: present_ids_def split: option.splits)

lemma set_present_ids: "set (present_ids cs) = {i. Some i \<in> metadata_id ` set cs}"
  by (induction cs) (auto split: option.splits simp: image_iff)

lemma chunk_ids_present:
  "\<forall>c\<in>set cs. metadata_id c \<noteq> None \<Longrightarrow> chunk_ids cs = Inr (present_ids cs)"
  by (induction cs) (auto simp: get_id_def split: option.splits)

lemma new_chunks_loop_filter:
  "\<forall>c\<in>set cs. metadata_id c \<noteq> None \<Longrightarrow>
   new_chunks_loop existing cs = Inr (filter (\<lambda>c. metadata_id c \<notin> Some ` existing) cs)"
  by (induction cs) (auto simp: get_id_def split: option.splits)

lemma loop_ids_set:
  "calculate_chunk_ids_loop e prev idx chunks = Inr cw \<Longrightarrow> \<forall>c\<in>set cw. metadata_id c \<noteq> None"
proof (induction chunks arbitrary: prev idx cw)
  case Nil
  then show ?case by simp
next
  case (Cons c cs)
  then show ?case
    by (auto simp: Let_def split: sum.splits)
qed

lemma add_to_chroma_result:
  fixes d :: db and e :: env and cw :: "chunk list"
  assumes cw: "calculate_chunk_ids e chunks = Inr cw"
  defines "existing \<equiv> set (map fst (items d))"
  defines "new \<equiv> filter (\<lambda>c. metadata_id c \<notin> Some ` existing) cw"
  defines "obsolete \<equiv> existing - set (present_ids cw)"
  defines "d1 \<equiv> d\<lparr>calls := calls d @ [Get]\<rparr>"
  defines "d2 \<equiv> (if obsolete \<noteq> {} then db_persist (db_delete obsolete d1) else d1)"
  shows "add_to_chroma e d chunks =
           (if new \<noteq> []
            then (case db_add_documents new (present_ids new) d2 of
                    Inl failed \<Rightarrow> Inl failed
                  | Inr d3 \<Rightarrow> Inr (db_persist d3))
            else Inr d2)"
proof -
  from cw have all: "\<forall>c\<in>set cw. metadata_id c \<noteq> None"
    unfolding calculate_chunk_ids_def by (rule loop_ids_set)
  then have alln: "\<forall>c\<in>set new. metadata_id c \<noteq> None" by (simp add: new_def)
  have 1: "new_chunks_loop existing cw = Inr new"
    unfolding new_def using all by (rule new_chunks_loop_filter)
  have 2: "chunk_ids cw = Inr (present_ids cw)" using all by (rule chunk_ids_present)
  have 3: "chunk_ids new = Inr (present_ids new)" using alln by (rule chunk_ids_present)
  have 4: "db_get d = (map fst (items d), d1)" by (simp add: db_get_def d1_def)
  have 5: "fst ` set (items d) = existing" by (simp add: existing_def)
  have 6: "existing - set (present_ids cw) = obsolete" by (simp add: obsolete_def)
  show ?thesis
    unfolding add_to_chroma_def cw 4
    by (simp add: 1 2 3 5 6 Let_def d2_def)
qed

lemma add_to_chroma_state:
  fixes d :: db and e :: env and cw :: "chunk list"
  assumes cw: "calculate_chunk_ids e chunks = Inr cw"
  defines "existing \<equiv> set (map fst (items d))"
  defines "new \<equiv> filter (\<lambda>c. metadata_id c \<notin> Some ` existing) cw"
  defines "obsolete \<equiv> existing - set (present_ids cw)"
  shows "\<exists>d'. add_to_chroma e d chunks =
                (if distinct (present_ids new) then Inr d' else Inl (DuplicateIDError, d')) \<and>
           items d' =
             (if distinct (present_ids new)
              then fold (\<lambda>(k, v). AList.update k v) (zip (present_ids new) new)
                     (filter (\<lambda>(k, v). k \<notin> obsolete) (items d))
              else filter (\<lambda>(k, v). k \<notin> obsolete) (items d)) \<and>
           calls d' = calls d @ [Get] @
                        (if obsolete = {} then [] else [Delete obsolete, Persist]) @
                        (if new = [] then []
                         else AddDocuments new (present_ids new) #
                              (if distinct (present_ids new) then [Persist] else []))"
proof -
  have f: "filter (\<lambda>(k, v). k \<notin> {}) (items d) = items d" by (induction "items d") auto
  have n: "new = [] \<Longrightarrow> present_ids new = []" by simp
  show ?thesis
    unfolding add_to_chroma_result [OF cw, of d] existing_def [symmetric] new_def [symmetric]
      obsolete_def [symmetric]
    using f n
    by (cases "new = []"; cases "obsolete = {}"; cases "distinct (present_ids new)")
      (simp_all add: db_persist_def db_delete_def db_add_documents_def Let_def)
qed

lemma length_present_ids:
  "\<forall>c\<in>set cs. metadata_id c \<noteq> None \<Longrightarrow> length (present_ids cs) = length cs"
  by (induction cs) (auto split: option.splits)

lemma keys_fold_update:
  "length ks = length vs \<Longrightarrow>
   fst ` set (fold (\<lambda>(k, v). AList.update k v) (zip ks vs) al) = fst ` set al \<union> set ks"
proof (induction ks vs arbitrary: al rule: list_induct2)
  case Nil
  then show ?case by simp
next
  case (Cons k ks v vs)
  then show ?case by (auto simp: AList.dom_update)
qed

lemma keys_filter: "fst ` set (filter (\<lambda>(k, v). k \<notin> S) al) = fst ` set al - S"
  by (induction al) auto

lemma map_of_fold_update:
  "i \<notin> set ks \<Longrightarrow>
   map_of (fold (\<lambda>(k, v). AList.update k v) (zip ks vs) al) i = map_of al i"
proof (induction ks arbitrary: vs al)
  case Nil
  then show ?case by simp
next
  case (Cons k ks)
  then show ?case by (cases vs) (simp_all add: AList.update_conv')
qed

lemma map_of_filter_keys:
  "i \<notin> S \<Longrightarrow> map_of (filter (\<lambda>(k, v). k \<notin> S) al) i = map_of al i"
  by (induction al) auto

lemma present_ids_filter:
  "set (present_ids (filter (\<lambda>c. metadata_id c \<notin> Some ` A) cs)) = set (present_ids cs) - A"
  by (induction cs) (auto split: option.splits)

lemma example_report_ids:
  "calculate_chunk_ids example_env report_chunks = Inr report_chunks_with_ids"
  by (simp add: calculate_chunk_ids_def report_chunks_def report_chunks_with_ids_def
      current_page_id_def calculate_sha1_def example_env_def example_chunk_def str_opt_def
      Let_def)

lemma example_existing:
  "set (map fst (items example_db)) =
     {''data/old.pdf:0:None:0'', ''report.md:None:da39a3ee5e6b4b0d3255bfef95601890afd80709:0''}"
  by (simp add: example_db_def)

lemma example_present:
  "present_ids report_chunks_with_ids =
     [''report.md:None:da39a3ee5e6b4b0d3255bfef95601890afd80709:0'',
      ''report.md:None:da39a3ee5e6b4b0d3255bfef95601890afd80709:1'']"
  by (simp add: report_chunks_with_ids_def)

lemma example_new:
  "filter (\<lambda>c. metadata_id c \<notin> Some ` set (map fst (items example_db))) report_chunks_with_ids =
     [example_chunk ''report.md'' None
        \<lparr>metadata_id := Some ''report.md:None:da39a3ee5e6b4b0d3255bfef95601890afd80709:1''\<rparr>]"
  unfolding example_existing by (simp add: report_chunks_with_ids_def)

lemma example_obsolete:
  "set (map fst (items example_db)) - set (present_ids report_chunks_with_ids) =
     {''data/old.pdf:0:None:0''}"
  unfolding example_existing example_present by auto

lemma add_to_chroma_run:
  fixes d :: db and e :: env and cw :: "chunk list"
  assumes cw: "calculate_chunk_ids e chunks = Inr cw"
  defines "existing \<equiv> set (map fst (items d))"
  defines "new \<equiv> filter (\<lambda>c. metadata_id c \<notin> Some ` existing) cw"
  defines "obsolete \<equiv> existing - set (present_ids cw)"
  shows "\<exists>d'. add_to_chroma e d chunks =
                (if distinct (present_ids new) then Inr d' else Inl (DuplicateIDError, d')) \<and>
           items d' =
             (if distinct (present_ids new)
              then fold (\<lambda>(k, v). AList.update k v) (zip (present_ids new) new)
                     (filter (\<lambda>(k, v). k \<notin> obsolete) (items d))
              else filter (\<lambda>(k, v). k \<notin> obsolete) (items d)) \<and>
           deleted_ids (drop (length (calls d)) (calls d')) = obsolete \<and>
           added_chunks (drop (length (calls d)) (calls d')) = new \<and>
           added_ids (drop (length (calls d)) (calls d')) = present_ids new"
proof -
  from add_to_chroma_state [OF cw, of d] obtain d'
    where r: "add_to_chroma e d chunks =
                (if distinct (present_ids new) then Inr d' else Inl (DuplicateIDError, d'))"
      and i: "items d' =
             (if distinct (present_ids new)
              then fold (\<lambda>(k, v). AList.update k v) (zip (present_ids new) new)
                     (filter (\<lambda>(k, v). k \<notin> obsolete) (items d))
              else filter (\<lambda>(k, v). k \<notin> obsolete) (items d))"
      and c: "calls d' = calls d @ [Get] @
                (if obsolete = {} then [] else [Delete obsolete, Persist]) @
                (if new = [] then []
                 else AddDocuments new (present_ids new) #
                      (if distinct (present_ids new) then [Persist] else []))"
    unfolding existing_def new_def obsolete_def by blast
  from c have dr: "drop (length (calls d)) (calls d') =
      [Get] @ (if obsolete = {} then [] else [Delete obsolete, Persist]) @
      (if new = [] then []
       else AddDocuments new (present_ids new) #
            (if distinct (present_ids new) then [Persist] else []))"
    by simp
  have "deleted_ids (drop (length (calls d)) (calls d')) = obsolete"
    and "added_chunks (drop (length (calls d)) (calls d')) = new"
    and "added_ids (drop (length (calls d)) (calls d')) = present_ids new"
    unfolding dr by simp_all
  with r i show ?thesis by blast
qed

lemma add_to_chroma_Inr_ids:
  "add_to_chroma e d chunks = Inr d' \<Longrightarrow> \<exists>cw. calculate_chunk_ids e chunks = Inr cw"
  by (cases "calculate_chunk_ids e chunks") (simp_all add: add_to_chroma_def)

lemma example_sync:
  "add_to_chroma example_env example_db report_chunks = Inr example_db_synced"
  unfolding add_to_chroma_result [OF example_report_ids] example_new example_obsolete
  by (simp add: db_persist_def db_delete_def db_add_documents_def example_db_def
      example_db_synced_def Let_def)

lemma repeated_ids:
  "calculate_chunk_ids example_env repeated_chunks = Inr repeated_chunks_with_ids"
  by (simp add: calculate_chunk_ids_def repeated_chunks_def repeated_chunks_with_ids_def
      repeated_new_chunks_def example_page_id Let_def)

lemma repeated_existing:
  "set (map fst (items repeated_db)) =
     {''data/old.pdf:0:None:0'',
      ''data/monopoly.pdf:1:da39a3ee5e6b4b0d3255bfef95601890afd80709:0''}"
  by (simp add: repeated_db_def)

lemma repeated_present:
  "present_ids repeated_chunks_with_ids =
     [''data/monopoly.pdf:1:da39a3ee5e6b4b0d3255bfef95601890afd80709:0'',
      ''data/monopoly.pdf:2:da39a3ee5e6b4b0d3255bfef95601890afd80709:0'',
      ''data/monopoly.pdf:3:da39a3ee5e6b4b0d3255bfef95601890afd80709:0'',
      ''data/monopoly.pdf:2:da39a3ee5e6b4b0d3255bfef95601890afd80709:0'']"
  by (simp add: repeated_chunks_with_ids_def repeated_new_chunks_def)

lemma repeated_new:
  "filter (\<lambda>c. metadata_id c \<notin> Some ` set (map fst (items repeated_db)))
     repeated_chunks_with_ids = repeated_new_chunks"
  unfolding repeated_existing
  by (simp add: repeated_chunks_with_ids_def repeated_new_chunks_def)

lemma repeated_new_ids:
  "present_ids repeated_new_chunks =
     [''data/monopoly.pdf:2:da39a3ee5e6b4b0d3255bfef95601890afd80709:0'',
      ''data/monopoly.pdf:3:da39a3ee5e6b4b0d3255bfef95601890afd80709:0'',
      ''data/monopoly.pdf:2:da39a3ee5e6b4b0d3255bfef95601890afd80709:0'']"
  by (simp add: repeated_new_chunks_def)

lemma repeated_new_not_distinct: "\<not> distinct (present_ids repeated_new_chunks)"
  unfolding repeated_new_ids by simp

lemma example_new_distinct:
  "distinct (present_ids
     [example_chunk ''report.md'' None
        \<lparr>metadata_id := Some ''report.md:None:da39a3ee5e6b4b0d3255bfef95601890afd80709:1''\<rparr>])"
  by simp

lemma repeated_obsolete:
  "set (map fst (items repeated_db)) - set (present_ids repeated_chunks_with_ids) =
     {''data/old.pdf:0:None:0''}"
  unfolding repeated_existing repeated_present by auto

lemma filter_known_ids:
  "\<forall>c\<in>set cs. metadata_id c \<noteq> None \<Longrightarrow>
   filter (\<lambda>c. metadata_id c \<notin> Some ` set (present_ids cs)) cs = []"
proof -
  assume a: "\<forall>c\<in>set cs. metadata_id c \<noteq> None"
  have "metadata_id c \<in> Some ` set (present_ids cs)" if "c \<in> set cs" for c
  proof -
    from a that obtain i where "metadata_id c = Some i" by auto
    with that show ?thesis by (force simp: set_present_ids)
  qed
  then show ?thesis by (simp add: filter_empty_conv)
qed

section \<open>Identity assignment\<close>

text \<open>
  C1, as stated: no two chunks of a batch receive the same identifier, whether or not
  the chunks that share a page are contiguous. On the batch page 1, page 2, page 1 of
  one file the index restarts at 0 for the third chunk, so the first and the third
  chunk receive the same identifier.
\<close>

theorem C1_counterexample:
  "map_sum (\<lambda>err. err) (map metadata_id) (calculate_chunk_ids example_env interleaved_chunks) =
     Inr [Some ''data/monopoly.pdf:1:da39a3ee5e6b4b0d3255bfef95601890afd80709:0'',
          Some ''data/monopoly.pdf:2:da39a3ee5e6b4b0d3255bfef95601890afd80709:0'',
          Some ''data/monopoly.pdf:1:da39a3ee5e6b4b0d3255bfef95601890afd80709:0''] \<and>
   \<not> distinct
       [Some ''data/monopoly.pdf:1:da39a3ee5e6b4b0d3255bfef95601890afd80709:0'',
        Some ''data/monopoly.pdf:2:da39a3ee5e6b4b0d3255bfef95601890afd80709:0'',
        Some ''data/monopoly.pdf:1:da39a3ee5e6b4b0d3255bfef95601890afd80709:0'']"
  by (simp add: calculate_chunk_ids_def interleaved_chunks_def example_page_id Let_def)

text \<open>
  C1, amended: when every chunk of the batch has a page id \<open>ks\<close> (no fingerprint raises),
  identity assignment returns, and the identifiers it assigns are pairwise different
  exactly when the chunks that share a page id are contiguous in the batch.
\<close>

theorem C1_ids_distinct_iff_grouped:
  assumes "map (current_page_id e) chunks = map Inr ks"
  shows "\<exists>out. calculate_chunk_ids e chunks = Inr out \<and>
           (distinct (map metadata_id out) \<longleftrightarrow> grouped ks)"
  using assms by (rule distinct_ids_iff)

theorem C1_ids_distinct_iff_grouped_witness:
  "map (current_page_id example_env) contiguous_chunks =
     map Inr [''data/monopoly.pdf:1:da39a3ee5e6b4b0d3255bfef95601890afd80709'',
              ''data/monopoly.pdf:1:da39a3ee5e6b4b0d3255bfef95601890afd80709'',
              ''data/monopoly.pdf:2:da39a3ee5e6b4b0d3255bfef95601890afd80709''] \<and>
   (\<exists>out. calculate_chunk_ids example_env contiguous_chunks = Inr out \<and>
          distinct (map metadata_id out))"
proof -
  let ?ks = "[''data/monopoly.pdf:1:da39a3ee5e6b4b0d3255bfef95601890afd80709'',
              ''data/monopoly.pdf:1:da39a3ee5e6b4b0d3255bfef95601890afd80709'',
              ''data/monopoly.pdf:2:da39a3ee5e6b4b0d3255bfef95601890afd80709'']"
  have h: "map (current_page_id example_env) contiguous_chunks = map Inr ?ks"
    by (simp add: contiguous_chunks_def example_page_id)
  have g: "grouped ?ks" by simp
  from C1_ids_distinct_iff_grouped [OF h] g h show ?thesis by blast
qed

text \<open>
  C3: identity assignment goes through the chunks in their order. Whenever it returns,
  every chunk has a page id \<open>source:page:fingerprint\<close>, the output has the chunks of the
  input in the same order, and chunk \<open>i\<close> differs from the input chunk only in its
  identifier, which is the page id, a colon and the running index: 0 for the first
  chunk, the index of the chunk before plus one when that chunk has the same page id,
  and 0 otherwise.
\<close>

theorem C3_running_index:
  assumes "calculate_chunk_ids e chunks = Inr out"
  shows "\<exists>ks. map (current_page_id e) chunks = map Inr ks \<and> length out = length chunks \<and>
           (\<forall>i<length chunks.
              (\<exists>p h. metadata_source (chunks ! i) = Some p \<and>
                     calculate_sha1 e (Some p) = Inr h \<and>
                     ks ! i = p @ '':'' @ str_opt str_int (metadata_page (chunks ! i)) @ '':'' @
                              str_opt (\<lambda>s. s) h) \<and>
              out ! i = (chunks ! i)\<lparr>metadata_id :=
                          Some (ks ! i @ '':'' @ str_nat (spec_running_index ks i))\<rparr>)"
proof -
  from assms obtain ks where ks: "map (current_page_id e) chunks = map Inr ks"
    unfolding calculate_chunk_ids_def by (blast dest: loop_Inr_keys)
  have "\<exists>p h. metadata_source (chunks ! i) = Some p \<and> calculate_sha1 e (Some p) = Inr h \<and>
          ks ! i = p @ '':'' @ str_opt str_int (metadata_page (chunks ! i)) @ '':'' @
                   str_opt (\<lambda>s. s) h" if "i < length chunks" for i
  proof -
    from ks that have "i < length ks" by (metis length_map)
    with ks that have "current_page_id e (chunks ! i) = Inr (ks ! i)"
      by (metis nth_map)
    then show ?thesis by (rule current_page_id_Inr)
  qed
  with calculate_chunk_ids_nth [OF assms ks] ks show ?thesis by blast
qed

theorem C3_running_index_witness:
  "calculate_chunk_ids example_env contiguous_chunks = Inr contiguous_chunks_with_ids \<and>
   (\<exists>ks. map (current_page_id example_env) contiguous_chunks = map Inr ks \<and>
      length contiguous_chunks_with_ids = length contiguous_chunks \<and>
      (\<forall>i<length contiguous_chunks.
         contiguous_chunks_with_ids ! i =
           (contiguous_chunks ! i)\<lparr>metadata_id :=
              Some (ks ! i @ '':'' @ str_nat (spec_running_index ks i))\<rparr>))"
proof -
  have h: "calculate_chunk_ids example_env contiguous_chunks = Inr contiguous_chunks_with_ids"
    by (simp add: calculate_chunk_ids_def contiguous_chunks_def contiguous_chunks_with_ids_def
        example_page_id Let_def)
  from C3_running_index [OF h] h show ?thesis by blast
qed

text \<open>
  C8, as stated: two consecutive chunks of \<open>report.md\<close> without page metadata receive
  identifiers with the unit index \<open>none\<close>. The f-string renders the absent page as
  Python's \<open>None\<close>, so the identifiers are not the ones the claim gives.
\<close>

theorem C8_counterexample:
  "map_sum (\<lambda>err. err) (map metadata_id) (calculate_chunk_ids example_env report_chunks) =
     Inr [Some ''report.md:None:da39a3ee5e6b4b0d3255bfef95601890afd80709:0'',
          Some ''report.md:None:da39a3ee5e6b4b0d3255bfef95601890afd80709:1''] \<and>
   map_sum (\<lambda>err. err) (map metadata_id) (calculate_chunk_ids example_env report_chunks) \<noteq>
     Inr [Some ''report.md:none:da39a3ee5e6b4b0d3255bfef95601890afd80709:0'',
          Some ''report.md:none:da39a3ee5e6b4b0d3255bfef95601890afd80709:1'']"
  by (simp add: calculate_chunk_ids_def report_chunks_def current_page_id_def
      calculate_sha1_def example_env_def example_chunk_def str_opt_def Let_def)

text \<open>
  C8, amended: two consecutive chunks of \<open>report.md\<close> without page metadata, with
  fingerprint \<open>hash\<close>, receive the identifiers \<open>report.md:None:hash:0\<close> and
  \<open>report.md:None:hash:1\<close>.
\<close>

theorem C8_page_absent_ids:
  assumes "metadata_source c1 = Some ''report.md''" and "metadata_page c1 = None"
    and "metadata_source c2 = Some ''report.md''" and "metadata_page c2 = None"
    and "calculate_sha1 e (Some ''report.md'') = Inr (Some hash)"
  shows "calculate_chunk_ids e [c1, c2] =
           Inr [c1\<lparr>metadata_id := Some (''report.md:None:'' @ hash @ '':0'')\<rparr>,
                c2\<lparr>metadata_id := Some (''report.md:None:'' @ hash @ '':1'')\<rparr>]"
  using assms
  by (simp add: calculate_chunk_ids_def current_page_id_def str_opt_def Let_def)

theorem C8_page_absent_ids_witness:
  "metadata_source (example_chunk ''report.md'' None) = Some ''report.md'' \<and>
   metadata_page (example_chunk ''report.md'' None) = None \<and>
   calculate_sha1 example_env (Some ''report.md'') =
     Inr (Some ''da39a3ee5e6b4b0d3255bfef95601890afd80709'') \<and>
   calculate_chunk_ids example_env
       [example_chunk ''report.md'' None, example_chunk ''report.md'' None] =
     Inr [example_chunk ''report.md'' None
            \<lparr>metadata_id := Some ''report.md:None:da39a3ee5e6b4b0d3255bfef95601890afd80709:0''\<rparr>,
          example_chunk ''report.md'' None
            \<lparr>metadata_id := Some ''report.md:None:da39a3ee5e6b4b0d3255bfef95601890afd80709:1''\<rparr>]"
proof -
  have s: "metadata_source (example_chunk ''report.md'' None) = Some ''report.md''"
    and p: "metadata_page (example_chunk ''report.md'' None) = None"
    by (simp_all add: example_chunk_def)
  have h: "calculate_sha1 example_env (Some ''report.md'') =
             Inr (Some ''da39a3ee5e6b4b0d3255bfef95601890afd80709'')"
    by (simp add: calculate_sha1_def example_env_def)
  from C8_page_absent_ids [OF s p s p h] s p h show ?thesis by simp
qed

text \<open>
  C2, as stated: when the path of a chunk does not resolve to a readable file,
  fingerprinting fails and identity assignment aborts. For a path that does not exist
  \<open>calculate_sha1\<close> catches \<open>FileNotFoundError\<close> and returns \<open>None\<close>, and identity
  assignment returns with an identifier for that chunk.
\<close>

theorem C2_counterexample:
  "open_file example_env ''data/missing.pdf'' = FileNotFound \<and>
   calculate_sha1 example_env (Some ''data/missing.pdf'') = Inr None \<and>
   map_sum (\<lambda>err. err) (map metadata_id) (calculate_chunk_ids example_env missing_chunks) =
     Inr [Some ''report.md:None:da39a3ee5e6b4b0d3255bfef95601890afd80709:0'',
          Some ''data/missing.pdf:0:None:0'']"
  by (simp add: calculate_chunk_ids_def missing_chunks_def current_page_id_def
      calculate_sha1_def example_env_def example_chunk_def str_opt_def str_int_def Let_def)

text \<open>
  C2, amended: for a path that does not exist fingerprinting returns \<open>None\<close>; for a
  path whose opening raises another error it fails with that error, which names the
  path. Identity assignment aborts with an error exactly when the fingerprint of some
  chunk raises it and the fingerprints of all chunks before that one return.
\<close>

theorem C2_abort_on_open_error:
  "(open_file e p = FileNotFound \<longrightarrow> calculate_sha1 e (Some p) = Inr None) \<and>
   (open_file e q = OpenFailed \<longrightarrow> calculate_sha1 e (Some q) = Inl (OSError q)) \<and>
   (calculate_chunk_ids e chunks = Inl err \<longleftrightarrow>
      (\<exists>pre c post. chunks = pre @ c # post \<and>
         (\<forall>x\<in>set pre. \<exists>h. calculate_sha1 e (metadata_source x) = Inr h) \<and>
         calculate_sha1 e (metadata_source c) = Inl err))"
proof (intro conjI impI iffI)
  assume "open_file e p = FileNotFound"
  then show "calculate_sha1 e (Some p) = Inr None" by (simp add: calculate_sha1_def)
next
  assume "open_file e q = OpenFailed"
  then show "calculate_sha1 e (Some q) = Inl (OSError q)" by (simp add: calculate_sha1_def)
next
  assume "calculate_chunk_ids e chunks = Inl err"
  then show "\<exists>pre c post. chunks = pre @ c # post \<and>
         (\<forall>x\<in>set pre. \<exists>h. calculate_sha1 e (metadata_source x) = Inr h) \<and>
         calculate_sha1 e (metadata_source c) = Inl err"
    unfolding calculate_chunk_ids_def by (rule loop_Inl_first)
next
  assume "\<exists>pre c post. chunks = pre @ c # post \<and>
         (\<forall>x\<in>set pre. \<exists>h. calculate_sha1 e (metadata_source x) = Inr h) \<and>
         calculate_sha1 e (metadata_source c) = Inl err"
  then show "calculate_chunk_ids e chunks = Inl err"
    unfolding calculate_chunk_ids_def by (auto intro: loop_first_Inl)
qed

theorem C2_abort_on_open_error_witness:
  "open_file example_env ''data/missing.pdf'' = FileNotFound \<and>
   calculate_sha1 example_env (Some ''data/missing.pdf'') = Inr None \<and>
   open_file example_env ''data/locked.pdf'' = OpenFailed \<and>
   calculate_sha1 example_env (Some ''data/locked.pdf'') = Inl (OSError ''data/locked.pdf'') \<and>
   locked_chunks = [example_chunk ''data/missing.pdf'' (Some 0)] @
      example_chunk ''data/locked.pdf'' (Some 0) # [example_chunk ''report.md'' None] \<and>
   (\<exists>h. calculate_sha1 example_env
          (metadata_source (example_chunk ''data/missing.pdf'' (Some 0))) = Inr h) \<and>
   calculate_chunk_ids example_env locked_chunks = Inl (OSError ''data/locked.pdf'')"
proof -
  have m: "open_file example_env ''data/missing.pdf'' = FileNotFound"
    and l: "open_file example_env ''data/locked.pdf'' = OpenFailed"
    by (simp_all add: example_env_def)
  have s: "locked_chunks = [example_chunk ''data/missing.pdf'' (Some 0)] @
      example_chunk ''data/locked.pdf'' (Some 0) # [example_chunk ''report.md'' None]"
    by (simp add: locked_chunks_def)
  have src: "metadata_source (example_chunk ''data/locked.pdf'' (Some 0)) = Some ''data/locked.pdf''"
    "metadata_source (example_chunk ''data/missing.pdf'' (Some 0)) = Some ''data/missing.pdf''"
    by (simp_all add: example_chunk_def)
  note t = C2_abort_on_open_error [of example_env "''data/missing.pdf''" "''data/locked.pdf''"
      locked_chunks "OSError ''data/locked.pdf''"]
  from t m have a: "calculate_sha1 example_env (Some ''data/missing.pdf'') = Inr None" by blast
  from t l have b: "calculate_sha1 example_env (Some ''data/locked.pdf'') =
      Inl (OSError ''data/locked.pdf'')" by blast
  have pre: "\<forall>x\<in>set [example_chunk ''data/missing.pdf'' (Some 0)].
      \<exists>h. calculate_sha1 example_env (metadata_source x) = Inr h"
    using a by (simp add: src)
  have c: "calculate_sha1 example_env
      (metadata_source (example_chunk ''data/locked.pdf'' (Some 0))) =
      Inl (OSError ''data/locked.pdf'')" using b by (simp add: src)
  from t s pre c have "calculate_chunk_ids example_env locked_chunks =
      Inl (OSError ''data/locked.pdf'')" by blast
  moreover from pre have "\<exists>h. calculate_sha1 example_env
      (metadata_source (example_chunk ''data/missing.pdf'' (Some 0))) = Inr h" by simp
  ultimately show ?thesis using m l a b s by blast
qed

text \<open>
  C10: in a batch where every chunk has a source path and no path raises an error other
  than \<open>FileNotFoundError\<close>, identity assignment returns for the whole batch; the
  fingerprint of a path that does not exist is \<open>None\<close>, and the chunk of such a path
  gets the identifier \<open>source:page:None:index\<close>.
\<close>

theorem C10_missing_file_fingerprint_None:
  assumes "\<forall>c\<in>set chunks. \<exists>p. metadata_source c = Some p \<and> open_file e p \<noteq> OpenFailed"
  shows "\<exists>out. calculate_chunk_ids e chunks = Inr out \<and> length out = length chunks \<and>
           (\<forall>i<length chunks. \<forall>p.
              metadata_source (chunks ! i) = Some p \<longrightarrow> open_file e p = FileNotFound \<longrightarrow>
              calculate_sha1 e (Some p) = Inr None \<and>
              (\<exists>n. metadata_id (out ! i) =
                 Some (p @ '':'' @ str_opt str_int (metadata_page (chunks ! i)) @
                       '':None:'' @ str_nat n)))"
proof -
  have "\<exists>k. current_page_id e c = Inr k" if "c \<in> set chunks" for c
  proof -
    from assms that obtain p where "metadata_source c = Some p" "open_file e p \<noteq> OpenFailed"
      by blast
    with calculate_sha1_not_failed [of e p] show ?thesis
      by (auto simp: current_page_id_Inr_iff)
  qed
  then obtain ks where ks: "map (current_page_id e) chunks = map Inr ks"
    using all_page_ids [of chunks e] by blast
  from loop_result [OF ks, of None 0] obtain out
    where out: "calculate_chunk_ids e chunks = Inr out"
    by (simp add: calculate_chunk_ids_def)
  note nth = calculate_chunk_ids_nth [OF out ks]
  have "calculate_sha1 e (Some p) = Inr None \<and>
        (\<exists>n. metadata_id (out ! i) =
           Some (p @ '':'' @ str_opt str_int (metadata_page (chunks ! i)) @
                 '':None:'' @ str_nat n))"
    if i: "i < length chunks" and p: "metadata_source (chunks ! i) = Some p"
      and nf: "open_file e p = FileNotFound" for i p
  proof -
    from nf have h: "calculate_sha1 e (Some p) = Inr None" by (simp add: calculate_sha1_def)
    from ks i have "i < length ks" by (metis length_map)
    with ks i have "current_page_id e (chunks ! i) = Inr (ks ! i)" by (metis nth_map)
    with p h have k: "ks ! i = p @ '':'' @ str_opt str_int (metadata_page (chunks ! i)) @ '':None''"
      by (simp add: current_page_id_def str_opt_def)
    from nth(2) [OF i] have "metadata_id (out ! i) =
        Some (p @ '':'' @ str_opt str_int (metadata_page (chunks ! i)) @ '':None:'' @
              str_nat (spec_running_index ks i))"
      by (simp add: k)
    with h show ?thesis by blast
  qed
  with out nth(1) show ?thesis by blast
qed

theorem C10_missing_file_fingerprint_None_witness:
  "missing_chunks =
     [example_chunk ''report.md'' None, example_chunk ''data/missing.pdf'' (Some 0)] \<and>
   metadata_source (missing_chunks ! 0) = Some ''report.md'' \<and>
   open_file example_env ''report.md'' \<noteq> OpenFailed \<and>
   metadata_source (missing_chunks ! 1) = Some ''data/missing.pdf'' \<and>
   open_file example_env ''data/missing.pdf'' \<noteq> OpenFailed \<and>
   open_file example_env ''data/missing.pdf'' = FileNotFound \<and>
   calculate_sha1 example_env (Some ''data/missing.pdf'') = Inr None \<and>
   (\<exists>out. calculate_chunk_ids example_env missing_chunks = Inr out \<and>
      length out = length missing_chunks \<and>
      (\<exists>n. metadata_id (out ! 1) =
         Some (''data/missing.pdf'' @ '':'' @
               str_opt str_int (metadata_page (missing_chunks ! 1)) @ '':None:'' @ str_nat n)))"
proof -
  have h: "\<forall>c\<in>set missing_chunks.
      \<exists>p. metadata_source c = Some p \<and> open_file example_env p \<noteq> OpenFailed"
    by (simp add: missing_chunks_def example_chunk_def example_env_def)
  have s: "metadata_source (missing_chunks ! 1) = Some ''data/missing.pdf''"
    by (simp add: missing_chunks_def example_chunk_def)
  have nf: "open_file example_env ''data/missing.pdf'' = FileNotFound"
    by (simp add: example_env_def)
  have l: "1 < length missing_chunks" by (simp add: missing_chunks_def)
  from C10_missing_file_fingerprint_None [OF h] obtain out
    where 1: "calculate_chunk_ids example_env missing_chunks = Inr out"
      and 2: "length out = length missing_chunks"
      and 3: "\<forall>i<length missing_chunks. \<forall>p.
              metadata_source (missing_chunks ! i) = Some p \<longrightarrow>
              open_file example_env p = FileNotFound \<longrightarrow>
              calculate_sha1 example_env (Some p) = Inr None \<and>
              (\<exists>n. metadata_id (out ! i) =
                 Some (p @ '':'' @ str_opt str_int (metadata_page (missing_chunks ! i)) @
                       '':None:'' @ str_nat n))"
    by blast
  from 3 l s nf have "calculate_sha1 example_env (Some ''data/missing.pdf'') = Inr None \<and>
      (\<exists>n. metadata_id (out ! 1) =
         Some (''data/missing.pdf'' @ '':'' @
               str_opt str_int (metadata_page (missing_chunks ! 1)) @ '':None:'' @ str_nat n))"
    by blast
  moreover have "missing_chunks =
     [example_chunk ''report.md'' None, example_chunk ''data/missing.pdf'' (Some 0)]"
    "metadata_source (missing_chunks ! 0) = Some ''report.md''"
    "open_file example_env ''report.md'' \<noteq> OpenFailed"
    "open_file example_env ''data/missing.pdf'' \<noteq> OpenFailed"
    by (simp_all add: missing_chunks_def example_chunk_def example_env_def)
  ultimately show ?thesis using s nf 1 2 by blast
qed

section \<open>Synchronization\<close>

text \<open>
  In the theorems of this section \<open>cw\<close> is the batch with its identifiers, the
  persisted identifiers are the keys of the store's items before the run, \<open>new\<close> are the
  chunks of the batch whose identifier is not persisted, and the calls of the run are
  the calls of the resulting store after those made before the run. A run returns when
  the identifiers of the new chunks are pairwise different; when they are not, it ends
  with the \<open>DuplicateIDError\<close> of the store, and the store is then the one the calls
  before the rejected addition have left.
\<close>

text \<open>
  C4: whenever identity assignment returns, the chunks that synchronization gives the
  store to add are exactly the chunks of the batch whose identifier is not persisted,
  in the order of the batch, and the identifiers it gives the store to remove are
  exactly the persisted identifiers that are not identifiers of the batch; this holds
  for a run that returns and for a run whose addition the store rejects.
\<close>

theorem C4_additions_and_removals:
  fixes d :: db and e :: env and cw :: "chunk list"
  assumes "calculate_chunk_ids e chunks = Inr cw"
  defines "new \<equiv> filter (\<lambda>c. metadata_id c \<notin> Some ` set (map fst (items d))) cw"
  shows "\<exists>d'. add_to_chroma e d chunks =
                (if distinct (present_ids new) then Inr d' else Inl (DuplicateIDError, d')) \<and>
           added_chunks (drop (length (calls d)) (calls d')) = new \<and>
           deleted_ids (drop (length (calls d)) (calls d')) =
             set (map fst (items d)) - set (present_ids cw)"
  using add_to_chroma_run [OF assms(1), of d] unfolding new_def by blast

theorem C4_additions_and_removals_witness:
  "calculate_chunk_ids example_env report_chunks = Inr report_chunks_with_ids \<and>
   (\<exists>d'. add_to_chroma example_env example_db report_chunks = Inr d' \<and>
      added_chunks (drop (length (calls example_db)) (calls d')) =
        [example_chunk ''report.md'' None
           \<lparr>metadata_id := Some ''report.md:None:da39a3ee5e6b4b0d3255bfef95601890afd80709:1''\<rparr>] \<and>
      deleted_ids (drop (length (calls example_db)) (calls d')) = {''data/old.pdf:0:None:0''}) \<and>
   calculate_chunk_ids example_env repeated_chunks = Inr repeated_chunks_with_ids \<and>
   (\<exists>d'. add_to_chroma example_env repeated_db repeated_chunks = Inl (DuplicateIDError, d') \<and>
      added_chunks (drop (length (calls repeated_db)) (calls d')) = repeated_new_chunks \<and>
      deleted_ids (drop (length (calls repeated_db)) (calls d')) = {''data/old.pdf:0:None:0''})"
proof -
  have "\<exists>d'. add_to_chroma example_env example_db report_chunks = Inr d' \<and>
      added_chunks (drop (length (calls example_db)) (calls d')) =
        [example_chunk ''report.md'' None
           \<lparr>metadata_id := Some ''report.md:None:da39a3ee5e6b4b0d3255bfef95601890afd80709:1''\<rparr>] \<and>
      deleted_ids (drop (length (calls example_db)) (calls d')) = {''data/old.pdf:0:None:0''}"
    using C4_additions_and_removals [OF example_report_ids, of example_db]
    unfolding example_new example_obsolete by simp
  moreover have "\<exists>d'. add_to_chroma example_env repeated_db repeated_chunks =
        Inl (DuplicateIDError, d') \<and>
      added_chunks (drop (length (calls repeated_db)) (calls d')) = repeated_new_chunks \<and>
      deleted_ids (drop (length (calls repeated_db)) (calls d')) = {''data/old.pdf:0:None:0''}"
    using C4_additions_and_removals [OF repeated_ids, of repeated_db]
    unfolding repeated_new repeated_obsolete by (simp add: repeated_new_not_distinct)
  ultimately show ?thesis using example_report_ids repeated_ids by blast
qed

text \<open>
  C5: after a run of synchronization that returned, a second run on the same batch,
  with the files unchanged, returns the store as it was: its only call is the listing
  of the identifiers, nothing is removed and nothing is added.
\<close>

theorem C5_second_run_no_changes:
  assumes "add_to_chroma e d chunks = Inr d'"
  shows "add_to_chroma e d' chunks = Inr (d'\<lparr>calls := calls d' @ [Get]\<rparr>)"
proof -
  from assms obtain cw where cw: "calculate_chunk_ids e chunks = Inr cw"
    by (blast dest: add_to_chroma_Inr_ids)
  then have all: "\<forall>c\<in>set cw. metadata_id c \<noteq> None"
    unfolding calculate_chunk_ids_def by (rule loop_ids_set)
  let ?existing = "set (map fst (items d))"
  let ?new = "filter (\<lambda>c. metadata_id c \<notin> Some ` ?existing) cw"
  let ?obsolete = "?existing - set (present_ids cw)"
  from add_to_chroma_run [OF cw, of d] assms
  have it: "items d' = fold (\<lambda>(k, v). AList.update k v) (zip (present_ids ?new) ?new)
                        (filter (\<lambda>(k, v). k \<notin> ?obsolete) (items d))"
    by (cases "distinct (present_ids ?new)") auto
  from all have "length (present_ids ?new) = length ?new"
    by (intro length_present_ids) simp
  then have "fst ` set (items d') =
      fst ` set (filter (\<lambda>(k, v). k \<notin> ?obsolete) (items d)) \<union> set (present_ids ?new)"
    unfolding it by (rule keys_fold_update)
  also have "\<dots> = (fst ` set (items d) - ?obsolete) \<union> (set (present_ids cw) - ?existing)"
    by (simp only: keys_filter present_ids_filter)
  also have "\<dots> = set (present_ids cw)" by auto
  finally have keys: "set (map fst (items d')) = set (present_ids cw)" by simp
  have n: "filter (\<lambda>c. metadata_id c \<notin> Some ` set (map fst (items d'))) cw = []"
    unfolding keys using all by (rule filter_known_ids)
  have o: "set (map fst (items d')) - set (present_ids cw) = {}"
    unfolding keys by simp
  show ?thesis
    unfolding add_to_chroma_result [OF cw, of d'] n o by simp
qed

theorem C5_second_run_no_changes_witness:
  "add_to_chroma example_env example_db report_chunks = Inr example_db_synced \<and>
   add_to_chroma example_env example_db_synced report_chunks =
     Inr (example_db_synced\<lparr>calls := calls example_db_synced @ [Get]\<rparr>)"
  using C5_second_run_no_changes [OF example_sync] example_sync by simp



text \<open>
  C7: for an identifier that is both an identifier of the batch and persisted, a run of
  synchronization leaves the item stored under it as it was, and the identifier is
  neither among those the run gives the store to delete nor among those it gives the
  store to add; this holds for a run that returns and for a run whose addition the
  store rejects.
\<close>

theorem C7_common_items_untouched:
  fixes d :: db and e :: env and cw :: "chunk list"
  assumes "calculate_chunk_ids e chunks = Inr cw"
    and "i \<in> set (present_ids cw)" and "i \<in> set (map fst (items d))"
  defines "new \<equiv> filter (\<lambda>c. metadata_id c \<notin> Some ` set (map fst (items d))) cw"
  shows "\<exists>d'. add_to_chroma e d chunks =
                (if distinct (present_ids new) then Inr d' else Inl (DuplicateIDError, d')) \<and>
           map_of (items d') i = map_of (items d) i \<and>
           i \<notin> deleted_ids (drop (length (calls d)) (calls d')) \<and>
           i \<notin> set (added_ids (drop (length (calls d)) (calls d')))"
proof -
  let ?obsolete = "set (map fst (items d)) - set (present_ids cw)"
  from add_to_chroma_run [OF assms(1), of d] obtain d'
    where r: "add_to_chroma e d chunks =
                (if distinct (present_ids new) then Inr d' else Inl (DuplicateIDError, d'))"
      and it: "items d' =
             (if distinct (present_ids new)
              then fold (\<lambda>(k, v). AList.update k v) (zip (present_ids new) new)
                     (filter (\<lambda>(k, v). k \<notin> ?obsolete) (items d))
              else filter (\<lambda>(k, v). k \<notin> ?obsolete) (items d))"
      and del: "deleted_ids (drop (length (calls d)) (calls d')) = ?obsolete"
      and add: "added_ids (drop (length (calls d)) (calls d')) = present_ids new"
    unfolding new_def by blast
  from assms(2) have o: "i \<notin> ?obsolete" by simp
  from assms(3) have n: "i \<notin> set (present_ids new)"
    unfolding new_def by (simp only: present_ids_filter) simp
  have "map_of (items d') i = map_of (filter (\<lambda>(k, v). k \<notin> ?obsolete) (items d)) i"
    unfolding it using n by (simp add: map_of_fold_update)
  also have "\<dots> = map_of (items d) i" using o by (rule map_of_filter_keys)
  finally have "map_of (items d') i = map_of (items d) i" .
  with r o n del add show ?thesis by auto
qed

theorem C7_common_items_untouched_witness:
  "calculate_chunk_ids example_env report_chunks = Inr report_chunks_with_ids \<and>
   ''report.md:None:da39a3ee5e6b4b0d3255bfef95601890afd80709:0'' \<in>
     set (present_ids report_chunks_with_ids) \<and>
   ''report.md:None:da39a3ee5e6b4b0d3255bfef95601890afd80709:0'' \<in>
     set (map fst (items example_db)) \<and>
   (\<exists>d'. add_to_chroma example_env example_db report_chunks = Inr d' \<and>
      map_of (items d') ''report.md:None:da39a3ee5e6b4b0d3255bfef95601890afd80709:0'' =
        map_of (items example_db) ''report.md:None:da39a3ee5e6b4b0d3255bfef95601890afd80709:0'' \<and>
      ''report.md:None:da39a3ee5e6b4b0d3255bfef95601890afd80709:0'' \<notin>
        deleted_ids (drop (length (calls example_db)) (calls d')) \<and>
      ''report.md:None:da39a3ee5e6b4b0d3255bfef95601890afd80709:0'' \<notin>
        set (added_ids (drop (length (calls example_db)) (calls d')))) \<and>
   calculate_chunk_ids example_env repeated_chunks = Inr repeated_chunks_with_ids \<and>
   ''data/monopoly.pdf:1:da39a3ee5e6b4b0d3255bfef95601890afd80709:0'' \<in>
     set (present_ids repeated_chunks_with_ids) \<and>
   ''data/monopoly.pdf:1:da39a3ee5e6b4b0d3255bfef95601890afd80709:0'' \<in>
     set (map fst (items repeated_db)) \<and>
   (\<exists>d'. add_to_chroma example_env repeated_db repeated_chunks = Inl (DuplicateIDError, d') \<and>
      map_of (items d') ''data/monopoly.pdf:1:da39a3ee5e6b4b0d3255bfef95601890afd80709:0'' =
        map_of (items repeated_db)
          ''data/monopoly.pdf:1:da39a3ee5e6b4b0d3255bfef95601890afd80709:0'' \<and>
      ''data/monopoly.pdf:1:da39a3ee5e6b4b0d3255bfef95601890afd80709:0'' \<notin>
        deleted_ids (drop (length (calls repeated_db)) (calls d')) \<and>
      ''data/monopoly.pdf:1:da39a3ee5e6b4b0d3255bfef95601890afd80709:0'' \<notin>
        set (added_ids (drop (length (calls repeated_db)) (calls d'))))"
proof -
  have a: "''report.md:None:da39a3ee5e6b4b0d3255bfef95601890afd80709:0'' \<in>
     set (present_ids report_chunks_with_ids)"
    unfolding example_present by simp
  have b: "''report.md:None:da39a3ee5e6b4b0d3255bfef95601890afd80709:0'' \<in>
     set (map fst (items example_db))"
    unfolding example_existing by simp
  have c: "''data/monopoly.pdf:1:da39a3ee5e6b4b0d3255bfef95601890afd80709:0'' \<in>
     set (present_ids repeated_chunks_with_ids)"
    unfolding repeated_present by simp
  have d: "''data/monopoly.pdf:1:da39a3ee5e6b4b0d3255bfef95601890afd80709:0'' \<in>
     set (map fst (items repeated_db))"
    unfolding repeated_existing by simp
  have "\<exists>d'. add_to_chroma example_env example_db report_chunks = Inr d' \<and>
      map_of (items d') ''report.md:None:da39a3ee5e6b4b0d3255bfef95601890afd80709:0'' =
        map_of (items example_db) ''report.md:None:da39a3ee5e6b4b0d3255bfef95601890afd80709:0'' \<and>
      ''report.md:None:da39a3ee5e6b4b0d3255bfef95601890afd80709:0'' \<notin>
        deleted_ids (drop (length (calls example_db)) (calls d')) \<and>
      ''report.md:None:da39a3ee5e6b4b0d3255bfef95601890afd80709:0'' \<notin>
        set (added_ids (drop (length (calls example_db)) (calls d')))"
    using C7_common_items_untouched [OF example_report_ids a b]
    unfolding example_new by simp
  moreover have "\<exists>d'. add_to_chroma example_env repeated_db repeated_chunks =
        Inl (DuplicateIDError, d') \<and>
      map_of (items d') ''data/monopoly.pdf:1:da39a3ee5e6b4b0d3255bfef95601890afd80709:0'' =
        map_of (items repeated_db)
          ''data/monopoly.pdf:1:da39a3ee5e6b4b0d3255bfef95601890afd80709:0'' \<and>
      ''data/monopoly.pdf:1:da39a3ee5e6b4b0d3255bfef95601890afd80709:0'' \<notin>
        deleted_ids (drop (length (calls repeated_db)) (calls d')) \<and>
      ''data/monopoly.pdf:1:da39a3ee5e6b4b0d3255bfef95601890afd80709:0'' \<notin>
        set (added_ids (drop (length (calls repeated_db)) (calls d')))"
    using C7_common_items_untouched [OF repeated_ids c d]
    unfolding repeated_new by (simp add: repeated_new_not_distinct)
  ultimately show ?thesis using example_report_ids repeated_ids a b c d by blast
qed

text \<open>
  C9: the identifiers a run gives the store to delete are disjoint from the
  identifiers of the batch and are persisted identifiers, and the identifiers it gives
  the store to add are disjoint from the persisted identifiers; this holds for a run
  that returns and for a run whose addition the store rejects.
\<close>

theorem C9_removals_and_additions_disjoint:
  fixes d :: db and e :: env and cw :: "chunk list"
  assumes "calculate_chunk_ids e chunks = Inr cw"
  defines "new \<equiv> filter (\<lambda>c. metadata_id c \<notin> Some ` set (map fst (items d))) cw"
  shows "\<exists>d'. add_to_chroma e d chunks =
                (if distinct (present_ids new) then Inr d' else Inl (DuplicateIDError, d')) \<and>
           deleted_ids (drop (length (calls d)) (calls d')) \<inter> set (present_ids cw) = {} \<and>
           deleted_ids (drop (length (calls d)) (calls d')) \<subseteq> set (map fst (items d)) \<and>
           set (added_ids (drop (length (calls d)) (calls d'))) \<inter> set (map fst (items d)) = {}"
proof -
  from add_to_chroma_run [OF assms(1), of d] obtain d'
    where "add_to_chroma e d chunks =
             (if distinct (present_ids new) then Inr d' else Inl (DuplicateIDError, d'))"
      and "deleted_ids (drop (length (calls d)) (calls d')) =
             set (map fst (items d)) - set (present_ids cw)"
      and "added_ids (drop (length (calls d)) (calls d')) = present_ids new"
    unfolding new_def by blast
  moreover have "set (present_ids new) \<inter> set (map fst (items d)) = {}"
    unfolding new_def by (simp only: present_ids_filter) blast
  ultimately show ?thesis by auto
qed

theorem C9_removals_and_additions_disjoint_witness:
  "calculate_chunk_ids example_env report_chunks = Inr report_chunks_with_ids \<and>
   (\<exists>d'. add_to_chroma example_env example_db report_chunks = Inr d' \<and>
      deleted_ids (drop (length (calls example_db)) (calls d')) \<inter>
        set (present_ids report_chunks_with_ids) = {} \<and>
      deleted_ids (drop (length (calls example_db)) (calls d')) \<subseteq>
        set (map fst (items example_db)) \<and>
      set (added_ids (drop (length (calls example_db)) (calls d'))) \<inter>
        set (map fst (items example_db)) = {}) \<and>
   calculate_chunk_ids example_env repeated_chunks = Inr repeated_chunks_with_ids \<and>
   (\<exists>d'. add_to_chroma example_env repeated_db repeated_chunks = Inl (DuplicateIDError, d') \<and>
      deleted_ids (drop (length (calls repeated_db)) (calls d')) \<inter>
        set (present_ids repeated_chunks_with_ids) = {} \<and>
      deleted_ids (drop (length (calls repeated_db)) (calls d')) \<subseteq>
        set (map fst (items repeated_db)) \<and>
      set (added_ids (drop (length (calls repeated_db)) (calls d'))) \<inter>
        set (map fst (items repeated_db)) = {})"
proof -
  have "\<exists>d'. add_to_chroma example_env example_db report_chunks = Inr d' \<and>
      deleted_ids (drop (length (calls example_db)) (calls d')) \<inter>
        set (present_ids report_chunks_with_ids) = {} \<and>
      deleted_ids (drop (length (calls example_db)) (calls d')) \<subseteq>
        set (map fst (items example_db)) \<and>
      set (added_ids (drop (length (calls example_db)) (calls d'))) \<inter>
        set (map fst (items example_db)) = {}"
    using C9_removals_and_additions_disjoint [OF example_report_ids, of example_db]
    unfolding example_new by simp
  moreover have "\<exists>d'. add_to_chroma example_env repeated_db repeated_chunks =
        Inl (DuplicateIDError, d') \<and>
      deleted_ids (drop (length (calls repeated_db)) (calls d')) \<inter>
        set (present_ids repeated_chunks_with_ids) = {} \<and>
      deleted_ids (drop (length (calls repeated_db)) (calls d')) \<subseteq>
        set (map fst (items repeated_db)) \<and>
      set (added_ids (drop (length (calls repeated_db)) (calls d'))) \<inter>
        set (map fst (items repeated_db)) = {}"
    using C9_removals_and_additions_disjoint [OF repeated_ids, of repeated_db]
    unfolding repeated_new by (simp add: repeated_new_not_distinct)
  ultimately show ?thesis using example_report_ids repeated_ids by blast
qed

end
